theory Spec2Isabelle
  imports Main "HOL-Library.Sublist"
begin

section \<open>Data model of the chat server\<close>

text \<open>
  The server (the Hono application in \<open>src/unnamed/part_002\<close>, lines 449 to 1216) keeps
  all of its data in one key-value table. Every key is one of five fixed prefixes
  followed by an id: \<open>user:\<close>, \<open>message:\<close>, \<open>conversations:\<close>, \<open>user_groups:\<close> and
  \<open>group:\<close>. No prefix is a prefix of another one, each prefix is only ever written with
  one shape of value, and the prefix scans of the server (\<open>user:\<close>, \<open>message:\<close>,
  \<open>group:\<close>) therefore return exactly the entries of one shape. The model keeps the five
  key spaces apart, each as an association list from the id that follows the prefix to
  the value; the order of the list is the order in which a scan returns the entries.

  Ids are strings. JavaScript numbers that hold \<open>Date.now()\<close> are integers. The fields
  \<open>id\<close>, \<open>email\<close>, \<open>name\<close> and \<open>text\<close> of the source's objects carry the name of their
  record in front (\<open>msg_id\<close>, \<open>user_email\<close>, \<open>group_name\<close>, \<open>msg_text\<close>), since one
  theory cannot use a field name twice; a field that is \<open>null\<close> is \<open>None\<close>.
\<close>

record user =
  user_id :: string
  user_email :: string
  user_name :: string

record message =
  msg_id :: string
  fromUserId :: string
  toUserId :: "string option"
  groupId :: "string option"
  msg_text :: string
  timestamp :: int

record group =
  group_id :: string
  group_name :: string
  memberIds :: "string list"
  createdBy :: string
  createdAt :: int

type_synonym 'v keyspace = "(string \<times> 'v) list"

record store =
  users :: "user keyspace"
  messages :: "message keyspace"
  conversations :: "string list keyspace"
  user_groups :: "string list keyspace"
  groups :: "group keyspace"

definition empty_store :: store where
  "empty_store = \<lparr>users = [], messages = [], conversations = [], user_groups = [], groups = []\<rparr>"

subsection \<open>The key-value store\<close>

text \<open>
  Modelled from the spec: the module \<open>kv_store.tsx\<close> that the server imports is not among
  the sources. The spec describes it as a flat string-keyed durable map supporting get,
  set, delete and prefix scan, with no transactions. \<open>kv_get\<close> returns the value of a key
  or nothing, \<open>kv_set\<close> replaces the value of a key that is present and adds the entry
  otherwise, \<open>kv_del\<close> removes the key, and \<open>kv_getByPrefix\<close> returns the values of one
  key space.
\<close>

definition kv_get :: "string \<Rightarrow> 'v keyspace \<Rightarrow> 'v option" where
  "kv_get k kvs = map_of kvs k"

fun kv_set :: "string \<Rightarrow> 'v \<Rightarrow> 'v keyspace \<Rightarrow> 'v keyspace" where
  "kv_set k v [] = [(k, v)]"
| "kv_set k v ((k', v') # kvs) =
     (if k' = k then (k, v) # kvs else (k', v') # kv_set k v kvs)"

definition kv_del :: "string \<Rightarrow> 'v keyspace \<Rightarrow> 'v keyspace" where
  "kv_del k kvs = filter (\<lambda>(k', v). k' \<noteq> k) kvs"

definition kv_getByPrefix :: "'v keyspace \<Rightarrow> 'v list" where
  "kv_getByPrefix kvs = map snd kvs"

subsection \<open>Callers, responses and JavaScript values\<close>

text \<open>
  \<open>supabase.auth.getUser(accessToken)\<close> is the identity provider: its answer is an input
  of every handler, \<open>None\<close> when the token resolves to no user. The guard \<open>!user?.id\<close>
  also rejects a user whose id is the empty string.
\<close>

record auth_user =
  au_id :: string
  au_email :: "string option"

definition authenticated :: "auth_user option \<Rightarrow> bool" where
  "authenticated caller = (case caller of None \<Rightarrow> False | Some u \<Rightarrow> au_id u \<noteq> [])"

text \<open>
  \<open>c.json(body)\<close> answers with status 200, \<open>c.json({error: msg}, code)\<close> with the given
  status.
\<close>

datatype 'a response = Json 'a | JsonError string nat

fun status :: "'a response \<Rightarrow> nat" where
  "status (Json body) = 200"
| "status (JsonError msg code) = code"

text \<open>
  A field of a request body is absent (\<open>None\<close>) or a string. \<open>!x\<close> holds for an absent
  field and for the empty string; \<open>x || null\<close> keeps a truthy field.
\<close>

definition truthy :: "string option \<Rightarrow> bool" where
  "truthy x = (case x of None \<Rightarrow> False | Some s \<Rightarrow> s \<noteq> [])"

definition or_null :: "string option \<Rightarrow> string option" where
  "or_null x = (if truthy x then x else None)"

definition or_empty :: "string option \<Rightarrow> string" where
  "or_empty x = (case x of None \<Rightarrow> [] | Some s \<Rightarrow> s)"

text \<open>
  A template literal prints an integer in decimal (timestamps are far below the
  magnitude at which JavaScript switches to exponent notation).
\<close>

definition digit_char :: "nat \<Rightarrow> char" where
  "digit_char d = ''0123456789'' ! d"

fun string_of_nat :: "nat \<Rightarrow> string" where
  "string_of_nat n =
     (if n < 10 then [digit_char n] else string_of_nat (n div 10) @ [digit_char (n mod 10)])"

declare string_of_nat.simps [simp del]

definition string_of_int :: "int \<Rightarrow> string" where
  "string_of_int i =
     (if i < 0 then CHR ''-'' # string_of_nat (nat (- i)) else string_of_nat (nat i))"

subsection \<open>The administrator allow-list\<close>

text \<open>
  \<open>toLowerCase\<close> on the ASCII letters; every other byte is kept. No character outside
  ASCII lower-cases to a letter of the one allow-listed address, so \<open>isAdmin\<close> agrees
  with the source on every string.
\<close>

definition toLowerCase_char :: "char \<Rightarrow> char" where
  "toLowerCase_char c =
     (case map_of (zip ''ABCDEFGHIJKLMNOPQRSTUVWXYZ'' ''abcdefghijklmnopqrstuvwxyz'') c of
        None \<Rightarrow> c
      | Some l \<Rightarrow> l)"

definition toLowerCase :: "string \<Rightarrow> string" where
  "toLowerCase s = map toLowerCase_char s"

definition ADMIN_EMAILS :: "string list" where
  "ADMIN_EMAILS = [''lichengantv@gmail.com'']"

definition isAdmin :: "string \<Rightarrow> bool" where
  "isAdmin email = (toLowerCase email \<in> set ADMIN_EMAILS)"

section \<open>The handlers\<close>

subsection \<open>POST /send-message\<close>

record send_body =
  b_toUserId :: "string option"
  b_groupId :: "string option"
  b_text :: "string option"

definition peers :: "string \<Rightarrow> store \<Rightarrow> string list" where
  \<comment> \<open>\<open>(await kv.get(`conversations:${id}`)) || { userIds: [] }\<close>\<close>
  "peers uid s = (case kv_get uid (conversations s) of None \<Rightarrow> [] | Some l \<Rightarrow> l)"

definition send_message ::
  "auth_user option \<Rightarrow> send_body \<Rightarrow> int \<Rightarrow> store \<Rightarrow> store \<times> message response" where
  "send_message caller body now s =
     (case caller of
        None \<Rightarrow> (s, JsonError ''Unauthorized'' 401)
      | Some u \<Rightarrow>
          if au_id u = [] then (s, JsonError ''Unauthorized'' 401)
          else if (\<not> truthy (b_toUserId body) \<and> \<not> truthy (b_groupId body)) \<or> \<not> truthy (b_text body)
          then (s, JsonError ''Recipient/group and message text are required'' 400)
          else
            let target = (if truthy (b_groupId body) then or_empty (b_groupId body)
                          else or_empty (b_toUserId body));
                messageId = au_id u @ '':'' @ target @ '':'' @ string_of_int now;
                msg = \<lparr>msg_id = messageId, fromUserId = au_id u,
                       toUserId = or_null (b_toUserId body), groupId = or_null (b_groupId body),
                       msg_text = or_empty (b_text body), timestamp = now\<rparr>;
                s1 = s\<lparr>messages := kv_set messageId msg (messages s)\<rparr>
            in if truthy (b_groupId body) then (s1, Json msg)
               else
                 let to = or_empty (b_toUserId body);
                     senderConv = peers (au_id u) s1;
                     receiverConv = peers to s1;
                     s2 = (if to \<notin> set senderConv
                           then s1\<lparr>conversations := kv_set (au_id u) (senderConv @ [to]) (conversations s1)\<rparr>
                           else s1);
                     s3 = (if au_id u \<notin> set receiverConv
                           then s2\<lparr>conversations := kv_set to (receiverConv @ [au_id u]) (conversations s2)\<rparr>
                           else s2)
                 in (s3, Json msg))"

subsection \<open>POST /create-group\<close>

text \<open>
  \<open>memberIds\<close> of the request is \<open>None\<close> when the field is missing or is not an array. The
  two readings of \<open>Date.now()\<close> and the string cut from \<open>Math.random()\<close> are inputs.
\<close>

record create_group_body =
  b_name :: "string option"
  b_memberIds :: "string list option"

definition groups_of :: "string \<Rightarrow> string list keyspace \<Rightarrow> string list" where
  \<comment> \<open>\<open>(await kv.get(`user_groups:${id}`)) || { groupIds: [] }\<close>\<close>
  "groups_of uid ug = (case kv_get uid ug of None \<Rightarrow> [] | Some l \<Rightarrow> l)"

definition add_group_to_members ::
  "string \<Rightarrow> string list \<Rightarrow> string list keyspace \<Rightarrow> string list keyspace" where
  "add_group_to_members gid allMemberIds ug =
     fold (\<lambda>memberId ug.
             let memberGroups = groups_of memberId ug
             in if gid \<notin> set memberGroups then kv_set memberId (memberGroups @ [gid]) ug else ug)
          allMemberIds ug"

definition create_group ::
  "auth_user option \<Rightarrow> create_group_body \<Rightarrow> int \<Rightarrow> string \<Rightarrow> int \<Rightarrow> store \<Rightarrow> store \<times> group response" where
  "create_group caller body now1 rnd now2 s =
     (case caller of
        None \<Rightarrow> (s, JsonError ''Unauthorized'' 401)
      | Some u \<Rightarrow>
          if au_id u = [] then (s, JsonError ''Unauthorized'' 401)
          else
            (case b_memberIds body of
               None \<Rightarrow> (s, JsonError ''Group name and members are required'' 400)
             | Some members \<Rightarrow>
                 if \<not> truthy (b_name body)
                 then (s, JsonError ''Group name and members are required'' 400)
                 else
                   let gid = ''group_'' @ string_of_int now1 @ ''_'' @ rnd;
                       allMemberIds = au_id u # filter (\<lambda>i. i \<noteq> au_id u) members;
                       grp = \<lparr>group_id = gid, group_name = or_empty (b_name body),
                              memberIds = allMemberIds, createdBy = au_id u, createdAt = now2\<rparr>;
                       s1 = s\<lparr>groups := kv_set gid grp (groups s)\<rparr>;
                       s2 = s1\<lparr>user_groups := add_group_to_members gid allMemberIds (user_groups s1)\<rparr>
                   in (s2, Json grp)))"

subsection \<open>GET /messages/:targetId\<close>

text \<open>
  \<open>Array.prototype.sort\<close> is stable, and the comparator \<open>a.timestamp - b.timestamp\<close>
  orders by timestamp, ascending: this is \<open>sort_key timestamp\<close>. The comparator
  \<open>b.timestamp - a.timestamp\<close> orders by the negated timestamp.
\<close>

definition is_dm_between :: "string \<Rightarrow> string \<Rightarrow> message \<Rightarrow> bool" where
  "is_dm_between me other m =
     ((fromUserId m = me \<and> toUserId m = Some other) \<or>
      (fromUserId m = other \<and> toUserId m = Some me))"

definition get_messages :: "auth_user option \<Rightarrow> string \<Rightarrow> store \<Rightarrow> message list response" where
  "get_messages caller targetId s =
     (case caller of
        None \<Rightarrow> JsonError ''Unauthorized'' 401
      | Some u \<Rightarrow>
          if au_id u = [] then JsonError ''Unauthorized'' 401
          else
            let isGroup = prefix ''group_'' targetId;
                allMessages = kv_getByPrefix (messages s)
            in if isGroup
               then Json (sort_key timestamp (filter (\<lambda>m. groupId m = Some targetId) allMessages))
               else Json (sort_key timestamp (filter (is_dm_between (au_id u) targetId) allMessages)))"

subsection \<open>GET /conversations\<close>

record conversation =
  conv_id :: string
  conv_type :: string
  conv_name :: string
  conv_email :: "string option"
  conv_memberCount :: "nat option"
  latestMessage :: string
  conv_timestamp :: int

definition latest_text :: "message list \<Rightarrow> string" where
  \<comment> \<open>\<open>latestMessage?.text || ''\<close> with \<open>latestMessage = userMessages[0]\<close>\<close>
  "latest_text ms = (case ms of [] \<Rightarrow> [] | m # rest \<Rightarrow> msg_text m)"

definition latest_timestamp :: "message list \<Rightarrow> int" where
  \<comment> \<open>\<open>latestMessage?.timestamp || 0\<close>\<close>
  "latest_timestamp ms = (case ms of [] \<Rightarrow> 0 | m # rest \<Rightarrow> timestamp m)"

definition dm_entry :: "string \<Rightarrow> store \<Rightarrow> string \<Rightarrow> conversation option" where
  "dm_entry me s userId =
     (case kv_get userId (users s) of
        None \<Rightarrow> None
      | Some userData \<Rightarrow>
          let allMessages = kv_getByPrefix (messages s);
              userMessages = sort_key (\<lambda>m. - timestamp m) (filter (is_dm_between me userId) allMessages)
          in Some \<lparr>conv_id = userId, conv_type = ''dm'', conv_name = user_name userData,
                   conv_email = Some (user_email userData), conv_memberCount = None,
                   latestMessage = latest_text userMessages,
                   conv_timestamp = latest_timestamp userMessages\<rparr>)"

definition group_entry :: "store \<Rightarrow> string \<Rightarrow> conversation option" where
  "group_entry s gid =
     (case kv_get gid (groups s) of
        None \<Rightarrow> None
      | Some groupData \<Rightarrow>
          let allMessages = kv_getByPrefix (messages s);
              groupMessages = sort_key (\<lambda>m. - timestamp m) (filter (\<lambda>m. groupId m = Some gid) allMessages)
          in Some \<lparr>conv_id = gid, conv_type = ''group'', conv_name = group_name groupData,
                   conv_email = None, conv_memberCount = Some (length (memberIds groupData)),
                   latestMessage = latest_text groupMessages,
                   conv_timestamp = latest_timestamp groupMessages\<rparr>)"

definition get_conversations :: "auth_user option \<Rightarrow> store \<Rightarrow> conversation list response" where
  "get_conversations caller s =
     (case caller of
        None \<Rightarrow> JsonError ''Unauthorized'' 401
      | Some u \<Rightarrow>
          if au_id u = [] then JsonError ''Unauthorized'' 401
          else
            let userIds = peers (au_id u) s;
                groupIds = groups_of (au_id u) (user_groups s);
                convs = List.map_filter (dm_entry (au_id u) s) userIds @
                        List.map_filter (group_entry s) groupIds
            in Json (sort_key (\<lambda>c. - conv_timestamp c) convs))"

subsection \<open>DELETE /admin/user/:userId and DELETE /user/account\<close>

text \<open>
  Both handlers end with the same cascade over the store, once for \<open>userIdToDelete\<close> and
  once for \<open>user.id\<close>. Each loop runs over the snapshot that the scan returned before it.
  The answers of the identity provider (\<open>signInWithPassword\<close>, \<open>admin.deleteUser\<close>) are
  inputs: \<open>None\<close> for no error, \<open>Some msg\<close> for an error with that message.
\<close>

definition remove_from_groups :: "string \<Rightarrow> group keyspace \<Rightarrow> group keyspace" where
  "remove_from_groups uid gs =
     fold (\<lambda>grp gs.
             if uid \<in> set (memberIds grp)
             then kv_set (group_id grp) (grp\<lparr>memberIds := filter (\<lambda>i. i \<noteq> uid) (memberIds grp)\<rparr>) gs
             else gs)
          (kv_getByPrefix gs) gs"

definition delete_messages_where :: "(message \<Rightarrow> bool) \<Rightarrow> message keyspace \<Rightarrow> message keyspace" where
  \<comment> \<open>\<open>for (const message of allMessages) { if (cond) await kv.del(`message:${message.id}`) }\<close>\<close>
  "delete_messages_where cond ms =
     fold (\<lambda>m ms. if cond m then kv_del (msg_id m) ms else ms) (kv_getByPrefix ms) ms"

definition cascade_delete_user :: "string \<Rightarrow> store \<Rightarrow> store" where
  "cascade_delete_user uid s =
     s\<lparr>users := kv_del uid (users s),
       conversations := kv_del uid (conversations s),
       user_groups := kv_del uid (user_groups s),
       groups := remove_from_groups uid (groups s),
       messages := delete_messages_where (\<lambda>m. fromUserId m = uid \<or> toUserId m = Some uid) (messages s)\<rparr>"

definition admin_delete_user ::
  "auth_user option \<Rightarrow> string \<Rightarrow> string option \<Rightarrow> store \<Rightarrow> store \<times> string response" where
  "admin_delete_user caller userIdToDelete deleteError s =
     (case caller of
        None \<Rightarrow> (s, JsonError ''Unauthorized - Admin only'' 403)
      | Some u \<Rightarrow>
          if au_id u = [] \<or> \<not> isAdmin (or_empty (au_email u))
          then (s, JsonError ''Unauthorized - Admin only'' 403)
          else if userIdToDelete = au_id u
          then (s, JsonError ''Cannot delete your own account'' 400)
          else
            (case kv_get userIdToDelete (users s) of
               None \<Rightarrow> (s, JsonError ''User not found'' 404)
             | Some userData \<Rightarrow>
                 if isAdmin (user_email userData)
                 then (s, JsonError ''Cannot delete another admin account'' 400)
                 else
                   (case deleteError of
                      Some msg \<Rightarrow> (s, JsonError msg 400)
                    | None \<Rightarrow> (cascade_delete_user userIdToDelete s, Json ''User deleted successfully''))))"

definition delete_account ::
  "auth_user option \<Rightarrow> string option \<Rightarrow> string option \<Rightarrow> string option \<Rightarrow> store \<Rightarrow>
   store \<times> string response" where
  "delete_account caller password signInError deleteError s =
     (case caller of
        None \<Rightarrow> (s, JsonError ''Unauthorized'' 401)
      | Some u \<Rightarrow>
          if au_id u = [] then (s, JsonError ''Unauthorized'' 401)
          else if \<not> truthy password
          then (s, JsonError ''Password is required to delete account'' 400)
          else
            (case signInError of
               Some msg \<Rightarrow> (s, JsonError ''Password is incorrect'' 400)
             | None \<Rightarrow>
                 (case deleteError of
                    Some msg \<Rightarrow> (s, JsonError msg 400)
                  | None \<Rightarrow> (cascade_delete_user (au_id u) s, Json ''Account deleted successfully''))))"

subsection \<open>DELETE /admin/group/:groupId\<close>

definition remove_group_from_members ::
  "string \<Rightarrow> string list \<Rightarrow> string list keyspace \<Rightarrow> string list keyspace" where
  "remove_group_from_members gid members ug =
     fold (\<lambda>memberId ug.
             case kv_get memberId ug of
               None \<Rightarrow> ug
             | Some memberGroups \<Rightarrow> kv_set memberId (filter (\<lambda>i. i \<noteq> gid) memberGroups) ug)
          members ug"

definition admin_delete_group ::
  "auth_user option \<Rightarrow> string \<Rightarrow> store \<Rightarrow> store \<times> string response" where
  "admin_delete_group caller gid s =
     (case caller of
        None \<Rightarrow> (s, JsonError ''Unauthorized - Admin only'' 403)
      | Some u \<Rightarrow>
          if au_id u = [] \<or> \<not> isAdmin (or_empty (au_email u))
          then (s, JsonError ''Unauthorized - Admin only'' 403)
          else
            (case kv_get gid (groups s) of
               None \<Rightarrow> (s, JsonError ''Group not found'' 404)
             | Some groupData \<Rightarrow>
                 (s\<lparr>groups := kv_del gid (groups s),
                    user_groups := remove_group_from_members gid (memberIds groupData) (user_groups s),
                    messages := delete_messages_where (\<lambda>m. groupId m = Some gid) (messages s)\<rparr>,
                  Json ''Group deleted successfully'')))"

subsection \<open>POST /reset-password\<close>

text \<open>
  The handler reads \<open>window.location.origin\<close> while it builds the arguments of
  \<open>resetPasswordForEmail\<close>, before the provider is called. The value of that read is the
  input \<open>origin\<close>: \<open>None\<close> when the read throws, which the handler's \<open>catch\<close> turns
  into status 500. The server is a Deno program (\<open>Deno.env.get\<close>, \<open>Deno.serve\<close>), not a
  page in a browser: there the read throws, so \<open>None\<close> is the input the server runs with.
  The provider's answer is the input \<open>error\<close>; it is the only way the existence of an
  account can reach the handler.
\<close>

definition reset_message :: string where
  "reset_message = ''If an account exists, a password reset email has been sent''"

definition reset_password ::
  "string option \<Rightarrow> string option \<Rightarrow> string option \<Rightarrow> string response" where
  "reset_password email origin error =
     (if \<not> truthy email then JsonError ''Email is required'' 400
      else
        (case origin of
           None \<Rightarrow> JsonError ''Internal server error'' 500
         | Some redirectTo \<Rightarrow>
             (case error of
                Some msg \<Rightarrow> Json reset_message
              | None \<Rightarrow> Json reset_message)))"

subsection \<open>Well-formed message key space\<close>

text \<open>
  \<open>send-message\<close>, the only writer of message records, stores each message under the key
  made of its own id, and a key holds one value.
\<close>

definition messages_wf :: "message keyspace \<Rightarrow> bool" where
  "messages_wf ms = (distinct (map fst ms) \<and> (\<forall>(k, m) \<in> set ms. k = msg_id m))"

text \<open>An index entry of the conversation index lists each peer once.\<close>

definition conversations_wf :: "string list keyspace \<Rightarrow> bool" where
  "conversations_wf cs = (\<forall>(k, l) \<in> set cs. distinct l)"

subsection \<open>A sample store\<close>

text \<open>
  A small store used to run the handlers: an administrator, a second profile that carries
  the allow-listed address in another case, two ordinary users who exchanged two direct
  messages, and one group with a message from each of them.
\<close>

definition admin_caller :: "auth_user option" where
  "admin_caller = Some \<lparr>au_id = ''admin'', au_email = Some ''lichengantv@gmail.com''\<rparr>"

definition sample_store :: store where
  "sample_store =
     \<lparr>users =
        [(''admin'', \<lparr>user_id = ''admin'', user_email = ''lichengantv@gmail.com'', user_name = ''Admin''\<rparr>),
         (''root'', \<lparr>user_id = ''root'', user_email = ''LichenGantv@Gmail.com'', user_name = ''Root''\<rparr>),
         (''u1'', \<lparr>user_id = ''u1'', user_email = ''alice@example.com'', user_name = ''Alice''\<rparr>),
         (''u2'', \<lparr>user_id = ''u2'', user_email = ''bob@example.com'', user_name = ''Bob''\<rparr>)],
      messages =
        [(''u1:group_500_abc:2000'',
          \<lparr>msg_id = ''u1:group_500_abc:2000'', fromUserId = ''u1'', toUserId = None,
           groupId = Some ''group_500_abc'', msg_text = ''all'', timestamp = 2000\<rparr>),
         (''u2:u1:1500'',
          \<lparr>msg_id = ''u2:u1:1500'', fromUserId = ''u2'', toUserId = Some ''u1'',
           groupId = None, msg_text = ''yo'', timestamp = 1500\<rparr>),
         (''u1:u2:1000'',
          \<lparr>msg_id = ''u1:u2:1000'', fromUserId = ''u1'', toUserId = Some ''u2'',
           groupId = None, msg_text = ''hi'', timestamp = 1000\<rparr>),
         (''u2:group_500_abc:1800'',
          \<lparr>msg_id = ''u2:group_500_abc:1800'', fromUserId = ''u2'', toUserId = None,
           groupId = Some ''group_500_abc'', msg_text = ''hey'', timestamp = 1800\<rparr>)],
      conversations = [(''u1'', [''u2'']), (''u2'', [''u1''])],
      user_groups = [(''u1'', [''group_500_abc'']), (''u2'', [''group_500_abc''])],
      groups =
        [(''group_500_abc'',
          \<lparr>group_id = ''group_500_abc'', group_name = ''Team'', memberIds = [''u1'', ''u2''],
           createdBy = ''u1'', createdAt = 500\<rparr>)]\<rparr>"

subsection \<open>The scenario of the spec\<close>

text \<open>User \<open>u1\<close> sends \<open>{toUserId: "u2", text: "hi"}\<close>; the message the spec expects.\<close>

definition hi_body :: send_body where
  "hi_body = \<lparr>b_toUserId = Some ''u2'', b_groupId = None, b_text = Some ''hi''\<rparr>"

definition hi_message :: message where
  "hi_message = \<lparr>msg_id = ''u1:u2:1000'', fromUserId = ''u1'', toUserId = Some ''u2'',
                  groupId = None, msg_text = ''hi'', timestamp = 1000\<rparr>"

section \<open>Properties\<close>

subsection \<open>Facts about the store\<close>

lemma kv_get_set: "kv_get k' (kv_set k v kvs) = (if k' = k then Some v else kv_get k' kvs)"
  by (induction kvs) (auto simp: kv_get_def)

lemma peers_messages_upd: "peers k (s\<lparr>messages := m\<rparr>) = peers k s"
  by (simp add: peers_def)

lemma peers_eq: "peers k s = (case kv_get k (conversations s) of None \<Rightarrow> [] | Some l \<Rightarrow> l)"
  by (simp add: peers_def)

lemma or_null_Some: "or_null x = Some b \<longleftrightarrow> x = Some b \<and> b \<noteq> []"
  by (auto simp: or_null_def truthy_def split: option.splits)

lemma or_null_None: "or_null x = None \<longleftrightarrow> \<not> truthy x"
  by (auto simp: or_null_def truthy_def split: option.splits)

lemma string_of_int_1000: "string_of_int 1000 = ''1000''"
  by (simp add: string_of_int_def string_of_nat.simps digit_char_def)

subsection \<open>Sending a direct message\<close>

text \<open>
  The conversation index after a successful direct message from \<open>A\<close> to \<open>B\<close>: both
  entries are read before either is written, and each is written only when the peer
  is not yet in it.
\<close>

lemma send_message_dm_conversations:
  assumes "send_message caller body now s = (s', Json msg)"
    and "groupId msg = None" and "toUserId msg = Some B" and "fromUserId msg = A"
  shows "conversations s' =
         (let c1 = (if B \<notin> set (peers A s) then kv_set A (peers A s @ [B]) (conversations s)
                    else conversations s)
          in if A \<notin> set (peers B s) then kv_set B (peers B s @ [A]) c1 else c1)"
  using assms
  by (auto simp: send_message_def Let_def peers_messages_upd or_null_Some or_null_None or_empty_def
           split: option.splits if_splits)

text \<open>The scenario of the spec: \<open>u1\<close> sends "hi" to \<open>u2\<close> at time 1000, nothing sent before.\<close>

lemma send_u1_u2_hi:
  "send_message (Some \<lparr>au_id = ''u1'', au_email = e\<rparr>)
     \<lparr>b_toUserId = Some ''u2'', b_groupId = None, b_text = Some ''hi''\<rparr> 1000
     (s\<lparr>messages := [], conversations := []\<rparr>) =
   (s\<lparr>messages := [(''u1:u2:1000'',
        \<lparr>msg_id = ''u1:u2:1000'', fromUserId = ''u1'', toUserId = Some ''u2'', groupId = None,
         msg_text = ''hi'', timestamp = 1000\<rparr>)],
      conversations := [(''u1'', [''u2'']), (''u2'', [''u1''])]\<rparr>,
    Json \<lparr>msg_id = ''u1:u2:1000'', fromUserId = ''u1'', toUserId = Some ''u2'', groupId = None,
         msg_text = ''hi'', timestamp = 1000\<rparr>)"
  by (simp add: send_message_def truthy_def or_null_def or_empty_def peers_def kv_get_def
      string_of_int_1000 Let_def)

text \<open>
  Claim C1. A successful send-message whose stored message is a direct message from \<open>A\<close>
  to \<open>B\<close> (no group id) leaves \<open>B\<close> in the index entry \<open>conversations:A\<close> and \<open>A\<close> in
  \<open>conversations:B\<close>. An entry that held each peer at most once still does. After it,
  any further successful direct message between the two, in either direction, leaves
  the whole conversation index as it is.
\<close>

theorem send_message_dm_index:
  assumes "send_message caller body now s = (s', Json msg)"
    and "groupId msg = None" and "toUserId msg = Some B" and "fromUserId msg = A"
  shows "B \<in> set (peers A s') \<and> A \<in> set (peers B s') \<and>
         (distinct (peers A s) \<longrightarrow> distinct (peers A s')) \<and>
         (distinct (peers B s) \<longrightarrow> distinct (peers B s')) \<and>
         (\<forall>caller2 body2 now2 s'' msg2.
            send_message caller2 body2 now2 s' = (s'', Json msg2) \<and> groupId msg2 = None \<and>
            (fromUserId msg2 = A \<and> toUserId msg2 = Some B \<or>
             fromUserId msg2 = B \<and> toUserId msg2 = Some A)
            \<longrightarrow> conversations s'' = conversations s')"
proof -
  note c = send_message_dm_conversations [OF assms]
  have pA: "peers A s' = (if B \<in> set (peers A s) then peers A s else peers A s @ [B])"
    unfolding peers_eq [of A s'] c by (auto simp: Let_def kv_get_set peers_eq)
  have pB: "peers B s' = (if A \<in> set (peers B s) then peers B s else peers B s @ [A])"
    unfolding peers_eq [of B s'] c by (auto simp: Let_def kv_get_set peers_eq)
  have again: "conversations s'' = conversations s'"
    if "send_message caller2 body2 now2 s' = (s'', Json msg2)" "groupId msg2 = None"
       "fromUserId msg2 = A \<and> toUserId msg2 = Some B \<or> fromUserId msg2 = B \<and> toUserId msg2 = Some A"
    for caller2 body2 now2 s'' msg2
  proof -
    from that(3) show ?thesis
    proof
      assume h: "fromUserId msg2 = A \<and> toUserId msg2 = Some B"
      show ?thesis
        using send_message_dm_conversations [OF that(1) that(2), of B A] h pA pB
        by (simp add: Let_def split: if_splits)
    next
      assume h: "fromUserId msg2 = B \<and> toUserId msg2 = Some A"
      show ?thesis
        using send_message_dm_conversations [OF that(1) that(2), of A B] h pA pB
        by (simp add: Let_def split: if_splits)
    qed
  qed
  show ?thesis
    using pA pB again by (auto simp del: split_paired_All)
qed

theorem send_message_dm_index_witness:
  "''u2'' \<in> set (peers ''u1'' (fst (send_message (Some \<lparr>au_id = ''u1'', au_email = None\<rparr>)
       \<lparr>b_toUserId = Some ''u2'', b_groupId = None, b_text = Some ''hi''\<rparr> 1000 empty_store))) \<and>
   ''u1'' \<in> set (peers ''u2'' (fst (send_message (Some \<lparr>au_id = ''u1'', au_email = None\<rparr>)
       \<lparr>b_toUserId = Some ''u2'', b_groupId = None, b_text = Some ''hi''\<rparr> 1000 empty_store)))"
proof -
  have e: "send_message (Some \<lparr>au_id = ''u1'', au_email = None\<rparr>)
       \<lparr>b_toUserId = Some ''u2'', b_groupId = None, b_text = Some ''hi''\<rparr> 1000 empty_store =
     (empty_store\<lparr>messages := [(''u1:u2:1000'',
        \<lparr>msg_id = ''u1:u2:1000'', fromUserId = ''u1'', toUserId = Some ''u2'', groupId = None,
         msg_text = ''hi'', timestamp = 1000\<rparr>)],
      conversations := [(''u1'', [''u2'']), (''u2'', [''u1''])]\<rparr>,
      Json \<lparr>msg_id = ''u1:u2:1000'', fromUserId = ''u1'', toUserId = Some ''u2'', groupId = None,
         msg_text = ''hi'', timestamp = 1000\<rparr>)"
    using send_u1_u2_hi [of None empty_store] by (simp add: empty_store_def)
  from send_message_dm_index [OF e, of "''u2''" "''u1''"] show ?thesis
    unfolding e by simp
qed

text \<open>
  Claim C10. send-message looks no target up. For an authenticated caller and a body
  with a non-empty text and a non-empty \<open>toUserId\<close> or \<open>groupId\<close>, whatever the store
  holds, the answer is the success response with the message, and the message is in the
  store under its id. The handler never answers 404, and it answers 400 exactly when an
  authenticated caller leaves out the text or both the recipient and the group.
\<close>

theorem send_message_accepts_any_target:
  "(authenticated caller \<and> truthy (b_text body) \<and>
    (truthy (b_toUserId body) \<or> truthy (b_groupId body)) \<longrightarrow>
      (\<exists>msg. snd (send_message caller body now s) = Json msg \<and>
             kv_get (msg_id msg) (messages (fst (send_message caller body now s))) = Some msg \<and>
             fromUserId msg = au_id (the caller) \<and>
             toUserId msg = or_null (b_toUserId body) \<and>
             groupId msg = or_null (b_groupId body) \<and>
             msg_text msg = or_empty (b_text body) \<and> timestamp msg = now)) \<and>
   status (snd (send_message caller body now s)) \<noteq> 404 \<and>
   (status (snd (send_message caller body now s)) = 400 \<longleftrightarrow>
      authenticated caller \<and>
      ((\<not> truthy (b_toUserId body) \<and> \<not> truthy (b_groupId body)) \<or> \<not> truthy (b_text body)))"
  by (auto simp: send_message_def authenticated_def Let_def kv_get_set split: option.splits)

theorem send_message_accepts_any_target_witness:
  "kv_get ''ghost'' (users empty_store) = None \<and> kv_get ''group_0'' (groups empty_store) = None \<and>
   (\<exists>msg. snd (send_message (Some \<lparr>au_id = ''u1'', au_email = None\<rparr>)
              \<lparr>b_toUserId = Some ''ghost'', b_groupId = None, b_text = Some ''hi''\<rparr> 1000 empty_store)
           = Json msg \<and> toUserId msg = Some ''ghost'') \<and>
   (\<exists>msg. snd (send_message (Some \<lparr>au_id = ''u1'', au_email = None\<rparr>)
              \<lparr>b_toUserId = None, b_groupId = Some ''group_0'', b_text = Some ''hi''\<rparr> 1000 empty_store)
           = Json msg \<and> groupId msg = Some ''group_0'')"
  using send_message_accepts_any_target [of "Some \<lparr>au_id = ''u1'', au_email = None\<rparr>"
      "\<lparr>b_toUserId = Some ''ghost'', b_groupId = None, b_text = Some ''hi''\<rparr>" 1000 empty_store]
    send_message_accepts_any_target [of "Some \<lparr>au_id = ''u1'', au_email = None\<rparr>"
      "\<lparr>b_toUserId = None, b_groupId = Some ''group_0'', b_text = Some ''hi''\<rparr>" 1000 empty_store]
  by (auto simp: authenticated_def truthy_def or_null_def kv_get_def empty_store_def)

lemma is_dm_between_commute: "is_dm_between a b = is_dm_between b a"
  by (auto simp: is_dm_between_def fun_eq_iff)

lemma isAdmin_admin: "isAdmin ''lichengantv@gmail.com''"
  by (simp add: isAdmin_def toLowerCase_def toLowerCase_char_def ADMIN_EMAILS_def)

lemma isAdmin_root: "isAdmin ''LichenGantv@Gmail.com''"
  by (simp add: isAdmin_def toLowerCase_def toLowerCase_char_def ADMIN_EMAILS_def)

lemma not_isAdmin_bob: "\<not> isAdmin ''bob@example.com''"
  by (simp add: isAdmin_def toLowerCase_def toLowerCase_char_def ADMIN_EMAILS_def)

lemma not_isAdmin_alice: "\<not> isAdmin ''alice@example.com''"
  by (simp add: isAdmin_def toLowerCase_def toLowerCase_char_def ADMIN_EMAILS_def)

subsection \<open>Creating a group\<close>

text \<open>
  Claim C3, as stated, fails: create-group removes the creator from the request's list and
  nothing else, so an id that the request repeats is stored repeated. Creator \<open>u1\<close> with
  the member list \<open>[u2, u2]\<close> gets the stored list \<open>[u1, u2, u2]\<close>.
\<close>

theorem create_group_duplicates_counterexample:
  "create_group (Some \<lparr>au_id = ''u1'', au_email = None\<rparr>)
     \<lparr>b_name = Some ''Team'', b_memberIds = Some [''u2'', ''u2'']\<rparr> 1000 ''abc'' 1000 empty_store =
   (\<lparr>users = [], messages = [], conversations = [],
     user_groups = [(''u1'', [''group_1000_abc'']), (''u2'', [''group_1000_abc''])],
     groups = [(''group_1000_abc'',
        \<lparr>group_id = ''group_1000_abc'', group_name = ''Team'', memberIds = [''u1'', ''u2'', ''u2''],
         createdBy = ''u1'', createdAt = 1000\<rparr>)]\<rparr>,
    Json \<lparr>group_id = ''group_1000_abc'', group_name = ''Team'', memberIds = [''u1'', ''u2'', ''u2''],
         createdBy = ''u1'', createdAt = 1000\<rparr>) \<and>
   \<not> distinct [''u1'', ''u2'', ''u2'']"
  by (simp add: create_group_def truthy_def or_empty_def add_group_to_members_def groups_of_def
      kv_get_def string_of_int_1000 empty_store_def Let_def)

text \<open>
  Claim C3, amended. For every group created by creator \<open>C\<close> with request list \<open>M\<close>, the
  stored \<open>memberIds\<close> is \<open>C\<close> followed by \<open>M\<close> without the occurrences of \<open>C\<close>: the
  creator is first and occurs once, the members are \<open>C\<close> and the ids of \<open>M\<close>, and the list
  is free of duplicates exactly when \<open>M\<close> without \<open>C\<close> is, so whenever \<open>M\<close> repeats no id.
\<close>

theorem create_group_memberIds:
  assumes "create_group caller body now1 rnd now2 s = (s', Json g)"
    and "caller = Some u" and "b_memberIds body = Some M"
  shows "kv_get (group_id g) (groups s') = Some g \<and>
         memberIds g = au_id u # filter (\<lambda>i. i \<noteq> au_id u) M \<and>
         hd (memberIds g) = au_id u \<and>
         count_list (memberIds g) (au_id u) = 1 \<and>
         set (memberIds g) = insert (au_id u) (set M) \<and>
         (distinct (memberIds g) \<longleftrightarrow> distinct (filter (\<lambda>i. i \<noteq> au_id u) M)) \<and>
         (distinct M \<longrightarrow> distinct (memberIds g))"
proof -
  have cnt: "count_list (filter (\<lambda>i. i \<noteq> c) xs) c = 0" for c :: string and xs
    by (induction xs) auto
  from assms show ?thesis
    by (auto simp: create_group_def Let_def kv_get_set cnt split: if_splits)
qed

theorem create_group_memberIds_witness:
  "snd (create_group (Some \<lparr>au_id = ''u1'', au_email = None\<rparr>)
     \<lparr>b_name = Some ''Team'', b_memberIds = Some [''u2'', ''u1'', ''u3'']\<rparr> 1000 ''abc'' 1000 empty_store) =
   Json \<lparr>group_id = ''group_1000_abc'', group_name = ''Team'', memberIds = [''u1'', ''u2'', ''u3''],
         createdBy = ''u1'', createdAt = 1000\<rparr> \<and>
   distinct [''u1'', ''u2'', ''u3'']"
proof -
  have e: "create_group (Some \<lparr>au_id = ''u1'', au_email = None\<rparr>)
     \<lparr>b_name = Some ''Team'', b_memberIds = Some [''u2'', ''u1'', ''u3'']\<rparr> 1000 ''abc'' 1000 empty_store =
   (\<lparr>users = [], messages = [], conversations = [],
     user_groups = [(''u1'', [''group_1000_abc'']), (''u2'', [''group_1000_abc'']),
                    (''u3'', [''group_1000_abc''])],
     groups = [(''group_1000_abc'',
        \<lparr>group_id = ''group_1000_abc'', group_name = ''Team'', memberIds = [''u1'', ''u2'', ''u3''],
         createdBy = ''u1'', createdAt = 1000\<rparr>)]\<rparr>,
    Json \<lparr>group_id = ''group_1000_abc'', group_name = ''Team'', memberIds = [''u1'', ''u2'', ''u3''],
         createdBy = ''u1'', createdAt = 1000\<rparr>)"
    by (simp add: create_group_def truthy_def or_empty_def add_group_to_members_def groups_of_def
        kv_get_def string_of_int_1000 empty_store_def Let_def)
  from create_group_memberIds [OF e refl, of "[''u2'', ''u1'', ''u3'']"] show ?thesis
    unfolding e by simp
qed

subsection \<open>Listing messages\<close>

text \<open>
  Claim C6. For two ids that are not group targets (they do not start with \<open>group_\<close>),
  the listing of direct messages is the same whichever of the two is the caller and
  whichever the target; it holds exactly the stored messages between the two, in either
  direction, in ascending order of timestamp.
\<close>

theorem get_messages_dm_symmetric:
  assumes "A \<noteq> []" and "B \<noteq> []" and "\<not> prefix ''group_'' A" and "\<not> prefix ''group_'' B"
  shows "get_messages (Some \<lparr>au_id = A, au_email = eA\<rparr>) B s =
         get_messages (Some \<lparr>au_id = B, au_email = eB\<rparr>) A s \<and>
         (\<exists>ms. get_messages (Some \<lparr>au_id = A, au_email = eA\<rparr>) B s = Json ms \<and>
               sorted (map timestamp ms) \<and>
               set ms = {m \<in> set (kv_getByPrefix (messages s)). is_dm_between A B m})"
  using assms
  by (auto simp: get_messages_def Let_def is_dm_between_commute [of B A])

theorem get_messages_dm_symmetric_witness:
  "get_messages (Some \<lparr>au_id = ''u1'', au_email = None\<rparr>) ''u2'' sample_store =
   get_messages (Some \<lparr>au_id = ''u2'', au_email = None\<rparr>) ''u1'' sample_store \<and>
   get_messages (Some \<lparr>au_id = ''u1'', au_email = None\<rparr>) ''u2'' sample_store =
   Json [\<lparr>msg_id = ''u1:u2:1000'', fromUserId = ''u1'', toUserId = Some ''u2'',
           groupId = None, msg_text = ''hi'', timestamp = 1000\<rparr>,
         \<lparr>msg_id = ''u2:u1:1500'', fromUserId = ''u2'', toUserId = Some ''u1'',
           groupId = None, msg_text = ''yo'', timestamp = 1500\<rparr>]"
  using get_messages_dm_symmetric [where A = "''u1''" and B = "''u2''" and eA = None and eB = None
      and s = sample_store]
  by (simp add: get_messages_def sample_store_def kv_getByPrefix_def is_dm_between_def Let_def)

text \<open>
  Claim C9. For a target id that starts with \<open>group_\<close>, any two authenticated callers
  get the same answer: all stored messages with that group id, in ascending order of
  timestamp. The caller's id plays no part, member of the group or not.
\<close>

theorem get_messages_group_no_membership_check:
  assumes "prefix ''group_'' g" and "authenticated X" and "authenticated Y"
  shows "get_messages X g s = get_messages Y g s \<and>
         get_messages X g s =
           Json (sort_key timestamp (filter (\<lambda>m. groupId m = Some g) (kv_getByPrefix (messages s)))) \<and>
         sorted (map timestamp
           (sort_key timestamp (filter (\<lambda>m. groupId m = Some g) (kv_getByPrefix (messages s)))))"
  using assms
  by (auto simp: get_messages_def authenticated_def Let_def split: option.splits)

theorem get_messages_group_no_membership_check_witness:
  "''u3'' \<notin> set [''u1'', ''u2''] \<and>
   kv_get ''group_500_abc'' (groups sample_store) =
     Some \<lparr>group_id = ''group_500_abc'', group_name = ''Team'', memberIds = [''u1'', ''u2''],
           createdBy = ''u1'', createdAt = 500\<rparr> \<and>
   get_messages (Some \<lparr>au_id = ''u3'', au_email = None\<rparr>) ''group_500_abc'' sample_store =
   get_messages (Some \<lparr>au_id = ''u1'', au_email = None\<rparr>) ''group_500_abc'' sample_store \<and>
   get_messages (Some \<lparr>au_id = ''u3'', au_email = None\<rparr>) ''group_500_abc'' sample_store =
   Json [\<lparr>msg_id = ''u2:group_500_abc:1800'', fromUserId = ''u2'', toUserId = None,
           groupId = Some ''group_500_abc'', msg_text = ''hey'', timestamp = 1800\<rparr>,
         \<lparr>msg_id = ''u1:group_500_abc:2000'', fromUserId = ''u1'', toUserId = None,
           groupId = Some ''group_500_abc'', msg_text = ''all'', timestamp = 2000\<rparr>]"
proof -
  have p: "prefix ''group_'' ''group_500_abc''"
    by simp
  have x: "authenticated (Some \<lparr>au_id = ''u3'', au_email = None\<rparr>)"
    by (simp add: authenticated_def)
  have y: "authenticated (Some \<lparr>au_id = ''u1'', au_email = None\<rparr>)"
    by (simp add: authenticated_def)
  have g: "kv_get ''group_500_abc'' (groups sample_store) =
     Some \<lparr>group_id = ''group_500_abc'', group_name = ''Team'', memberIds = [''u1'', ''u2''],
           createdBy = ''u1'', createdAt = 500\<rparr>"
    by (simp add: kv_get_def sample_store_def)
  have l: "sort_key timestamp (filter (\<lambda>m. groupId m = Some ''group_500_abc'')
             (kv_getByPrefix (messages sample_store))) =
     [\<lparr>msg_id = ''u2:group_500_abc:1800'', fromUserId = ''u2'', toUserId = None,
           groupId = Some ''group_500_abc'', msg_text = ''hey'', timestamp = 1800\<rparr>,
      \<lparr>msg_id = ''u1:group_500_abc:2000'', fromUserId = ''u1'', toUserId = None,
           groupId = Some ''group_500_abc'', msg_text = ''all'', timestamp = 2000\<rparr>]"
    by (simp add: sample_store_def kv_getByPrefix_def)
  have c: "''u3'' \<notin> set [''u1'', ''u2'']"
    by simp
  note t = get_messages_group_no_membership_check [OF p x y, of sample_store]
  from t have a: "get_messages (Some \<lparr>au_id = ''u3'', au_email = None\<rparr>) ''group_500_abc'' sample_store =
      get_messages (Some \<lparr>au_id = ''u1'', au_email = None\<rparr>) ''group_500_abc'' sample_store"
    by (rule conjunct1)
  from t have b0: "get_messages (Some \<lparr>au_id = ''u3'', au_email = None\<rparr>) ''group_500_abc'' sample_store =
      Json (sort_key timestamp (filter (\<lambda>m. groupId m = Some ''group_500_abc'')
             (kv_getByPrefix (messages sample_store))))"
    by (rule conjunct2 [THEN conjunct1])
  have b: "get_messages (Some \<lparr>au_id = ''u3'', au_email = None\<rparr>) ''group_500_abc'' sample_store =
      Json [\<lparr>msg_id = ''u2:group_500_abc:1800'', fromUserId = ''u2'', toUserId = None,
              groupId = Some ''group_500_abc'', msg_text = ''hey'', timestamp = 1800\<rparr>,
            \<lparr>msg_id = ''u1:group_500_abc:2000'', fromUserId = ''u1'', toUserId = None,
              groupId = Some ''group_500_abc'', msg_text = ''all'', timestamp = 2000\<rparr>]"
    using b0 unfolding l .
  from a b c g show ?thesis
    by blast
qed

subsection \<open>Password reset\<close>

text \<open>
  Whatever the identity provider reports about the address, the answer is the same: the
  two branches after the provider call return the same body.
\<close>

lemma reset_password_same_response:
  "reset_password email origin err1 = reset_password email origin err2"
  by (simp add: reset_password_def split: option.splits)

lemma reset_password_in_browser:
  "truthy email \<Longrightarrow> reset_password email (Some redirectTo) err = Json reset_message"
  by (simp add: reset_password_def split: option.splits)

text \<open>
  Claim C8. The claim is what the handler sets out to do (its comment reads "Don't reveal
  if email exists or not for security", and both of its return branches carry the success
  body), but the server does not get there: the read of \<open>window.location.origin\<close> throws
  in the Deno server, so a request with the non-empty email \<open>bob@example.com\<close> is answered
  with status 500 and the body "Internal server error", not with the success body, both
  when the provider would have reported no error and when it would have reported one.
\<close>

theorem reset_password_server_error:
  "reset_password (Some ''bob@example.com'') None None =
     JsonError ''Internal server error'' 500 \<and>
   reset_password (Some ''bob@example.com'') None (Some ''User not found'') =
     JsonError ''Internal server error'' 500 \<and>
   JsonError ''Internal server error'' 500 \<noteq>
     Json ''If an account exists, a password reset email has been sent''"
  by (simp add: reset_password_def truthy_def)

subsection \<open>Deleting a user as administrator: the guards\<close>

text \<open>
  Claim C7. For a caller who is an administrator: deleting another user whose profile
  exists with an address off the allow-list, the identity provider accepting the
  deletion, answers 200; deleting the caller's own id answers 400 and leaves the store
  as it was; deleting a user whose profile carries an allow-listed address answers 400
  and leaves the store as it was.
\<close>

theorem admin_delete_user_guards:
  assumes "caller = Some u" and "au_id u \<noteq> []" and "isAdmin (or_empty (au_email u))"
  shows "(target \<noteq> au_id u \<and> kv_get target (users s) = Some p \<and> \<not> isAdmin (user_email p) \<and>
          deleteError = None \<longrightarrow>
            snd (admin_delete_user caller target deleteError s) = Json ''User deleted successfully'' \<and>
            status (snd (admin_delete_user caller target deleteError s)) = 200) \<and>
         (target = au_id u \<longrightarrow>
            fst (admin_delete_user caller target deleteError s) = s \<and>
            status (snd (admin_delete_user caller target deleteError s)) = 400) \<and>
         (kv_get target (users s) = Some p \<and> isAdmin (user_email p) \<longrightarrow>
            fst (admin_delete_user caller target deleteError s) = s \<and>
            status (snd (admin_delete_user caller target deleteError s)) = 400)"
  using assms by (auto simp: admin_delete_user_def split: option.splits)

theorem admin_delete_user_guards_witness:
  "status (snd (admin_delete_user admin_caller ''u2'' None sample_store)) = 200 \<and>
   fst (admin_delete_user admin_caller ''admin'' None sample_store) = sample_store \<and>
   status (snd (admin_delete_user admin_caller ''admin'' None sample_store)) = 400 \<and>
   fst (admin_delete_user admin_caller ''root'' None sample_store) = sample_store \<and>
   status (snd (admin_delete_user admin_caller ''root'' None sample_store)) = 400"
proof -
  have a: "admin_caller = Some \<lparr>au_id = ''admin'', au_email = Some ''lichengantv@gmail.com''\<rparr>"
    by (simp add: admin_caller_def)
  have adm: "isAdmin (or_empty (au_email \<lparr>au_id = ''admin'', au_email = Some ''lichengantv@gmail.com''\<rparr>))"
    by (simp add: or_empty_def isAdmin_admin)
  have ne: "au_id \<lparr>au_id = ''admin'', au_email = Some ''lichengantv@gmail.com''\<rparr> \<noteq> []"
    by simp
  have u2: "kv_get ''u2'' (users sample_store) =
      Some \<lparr>user_id = ''u2'', user_email = ''bob@example.com'', user_name = ''Bob''\<rparr>"
    by (simp add: kv_get_def sample_store_def)
  have u2_other: "''u2'' \<noteq> au_id \<lparr>au_id = ''admin'', au_email = Some ''lichengantv@gmail.com''\<rparr>"
    by simp
  have u2_plain: "\<not> isAdmin (user_email \<lparr>user_id = ''u2'', user_email = ''bob@example.com'', user_name = ''Bob''\<rparr>)"
    by (simp add: not_isAdmin_bob)
  have self: "''admin'' = au_id \<lparr>au_id = ''admin'', au_email = Some ''lichengantv@gmail.com''\<rparr>"
    by simp
  have root: "kv_get ''root'' (users sample_store) =
      Some \<lparr>user_id = ''root'', user_email = ''LichenGantv@Gmail.com'', user_name = ''Root''\<rparr>"
    by (simp add: kv_get_def sample_store_def)
  have root_admin: "isAdmin (user_email \<lparr>user_id = ''root'', user_email = ''LichenGantv@Gmail.com'', user_name = ''Root''\<rparr>)"
    by (simp add: isAdmin_root)
  have 1: "status (snd (admin_delete_user admin_caller ''u2'' None sample_store)) = 200"
    using admin_delete_user_guards [OF a ne adm, where target = "''u2''"
        and s = sample_store and deleteError = None
        and p = "\<lparr>user_id = ''u2'', user_email = ''bob@example.com'', user_name = ''Bob''\<rparr>"]
      u2 u2_other u2_plain
    by blast
  have 2: "fst (admin_delete_user admin_caller ''admin'' None sample_store) = sample_store \<and>
     status (snd (admin_delete_user admin_caller ''admin'' None sample_store)) = 400"
    using admin_delete_user_guards [OF a ne adm, where target = "''admin''"
        and s = sample_store and deleteError = None] self
    by blast
  have 3: "fst (admin_delete_user admin_caller ''root'' None sample_store) = sample_store \<and>
     status (snd (admin_delete_user admin_caller ''root'' None sample_store)) = 400"
    using admin_delete_user_guards [OF a ne adm, where target = "''root''"
        and s = sample_store and deleteError = None
        and p = "\<lparr>user_id = ''root'', user_email = ''LichenGantv@Gmail.com'', user_name = ''Root''\<rparr>"]
      root root_admin
    by blast
  from 1 2 3 show ?thesis
    by blast
qed

subsection \<open>Cascading deletes over the message key space\<close>

lemma fold_kv_del:
  "fold (\<lambda>m ms. if P m then kv_del (msg_id m) ms else ms) xs ms =
   filter (\<lambda>(k, v). k \<notin> msg_id ` {x \<in> set xs. P x}) ms"
proof (induction xs arbitrary: ms)
  case Nil
  show ?case by simp
next
  case (Cons x xs)
  show ?case
    by (simp add: Cons.IH kv_del_def case_prod_unfold) (auto intro: filter_cong)
qed

lemma delete_messages_where_wf:
  assumes "messages_wf ms"
  shows "delete_messages_where P ms = filter (\<lambda>(k, m). \<not> P m) ms"
proof -
  have eq: "(k \<notin> msg_id ` {x \<in> set (map snd ms). P x}) = (\<not> P m)" if "(k, m) \<in> set ms" for k m
  proof
    assume "k \<notin> msg_id ` {x \<in> set (map snd ms). P x}"
    moreover from assms that have "k = msg_id m"
      by (auto simp: messages_wf_def)
    moreover from that have "m \<in> set (map snd ms)"
      by force
    ultimately show "\<not> P m"
      by blast
  next
    assume np: "\<not> P m"
    show "k \<notin> msg_id ` {x \<in> set (map snd ms). P x}"
    proof
      assume "k \<in> msg_id ` {x \<in> set (map snd ms). P x}"
      then obtain k' x where x: "(k', x) \<in> set ms" "P x" "k = msg_id x"
        by auto
      with assms have "k' = k"
        by (auto simp: messages_wf_def)
      with x(1) that assms have "x = m"
        by (auto simp: messages_wf_def dest: eq_key_imp_eq_value)
      with x(2) np show False
        by simp
    qed
  qed
  show ?thesis
    unfolding delete_messages_where_def kv_getByPrefix_def fold_kv_del
  proof (rule filter_cong [OF refl])
    fix x
    assume a: "x \<in> set ms"
    obtain k m where x: "x = (k, m)"
      by (cases x)
    from a eq [of k m]
    show "(case x of (k, v) \<Rightarrow> k \<notin> msg_id ` {x \<in> set (map snd ms). P x}) =
          (case x of (k, m) \<Rightarrow> \<not> P m)"
      by (simp add: x)
  qed
qed

lemma kv_get_remove_group:
  "kv_get k (remove_group_from_members gid members ug) =
   (if k \<in> set members then map_option (filter (\<lambda>i. i \<noteq> gid)) (kv_get k ug) else kv_get k ug)"
  unfolding remove_group_from_members_def
  by (induction members arbitrary: ug) (auto simp: kv_get_set split: option.splits)

lemma messages_wf_sample: "messages_wf (messages sample_store)"
  by (simp add: messages_wf_def sample_store_def)

text \<open>
  Claim C2, as stated, fails: the cascade of both handlers deletes every message whose
  sender is the deleted user, and a group message sent by that user is one of them. In
  the sample store the message of \<open>u1\<close> to the group is gone after the administrator
  deletes \<open>u1\<close>, and after \<open>u1\<close> deletes the account.
\<close>

theorem delete_user_group_message_counterexample:
  "kv_get ''u1:group_500_abc:2000'' (messages sample_store) =
     Some \<lparr>msg_id = ''u1:group_500_abc:2000'', fromUserId = ''u1'', toUserId = None,
           groupId = Some ''group_500_abc'', msg_text = ''all'', timestamp = 2000\<rparr> \<and>
   snd (admin_delete_user admin_caller ''u1'' None sample_store) = Json ''User deleted successfully'' \<and>
   kv_get ''u1:group_500_abc:2000''
     (messages (fst (admin_delete_user admin_caller ''u1'' None sample_store))) = None \<and>
   snd (delete_account (Some \<lparr>au_id = ''u1'', au_email = Some ''alice@example.com''\<rparr>)
          (Some ''secret'') None None sample_store) = Json ''Account deleted successfully'' \<and>
   kv_get ''u1:group_500_abc:2000''
     (messages (fst (delete_account (Some \<lparr>au_id = ''u1'', au_email = Some ''alice@example.com''\<rparr>)
          (Some ''secret'') None None sample_store))) = None"
  by (simp add: admin_delete_user_def delete_account_def admin_caller_def or_empty_def truthy_def
      isAdmin_admin not_isAdmin_alice cascade_delete_user_def delete_messages_where_def
      kv_get_def kv_del_def kv_getByPrefix_def sample_store_def)

text \<open>
  Claim C2, amended. Deleting a user, by the administrator or by the user, deletes every
  message of which that user is the sender or the direct recipient, the group messages
  that the user sent among them, and leaves every other message in the store unchanged.
\<close>

theorem delete_user_messages:
  assumes "messages_wf (messages s)"
  shows "(admin_delete_user caller uid deleteError s = (s1, Json r1) \<longrightarrow>
            messages s1 =
              filter (\<lambda>(k, m). \<not> (fromUserId m = uid \<or> toUserId m = Some uid)) (messages s)) \<and>
         (delete_account caller password signInError deleteError s = (s2, Json r2) \<longrightarrow>
            messages s2 =
              filter (\<lambda>(k, m). \<not> (fromUserId m = au_id (the caller) \<or>
                                    toUserId m = Some (au_id (the caller)))) (messages s))"
  using assms
  by (auto simp: admin_delete_user_def delete_account_def cascade_delete_user_def
        delete_messages_where_wf split: option.splits if_splits)

theorem delete_user_messages_witness:
  "messages_wf (messages sample_store) \<and>
   messages (fst (admin_delete_user admin_caller ''u1'' None sample_store)) =
     [(''u2:group_500_abc:1800'',
       \<lparr>msg_id = ''u2:group_500_abc:1800'', fromUserId = ''u2'', toUserId = None,
        groupId = Some ''group_500_abc'', msg_text = ''hey'', timestamp = 1800\<rparr>)] \<and>
   messages (fst (delete_account (Some \<lparr>au_id = ''u2'', au_email = Some ''bob@example.com''\<rparr>)
              (Some ''secret'') None None sample_store)) =
     [(''u1:group_500_abc:2000'',
       \<lparr>msg_id = ''u1:group_500_abc:2000'', fromUserId = ''u1'', toUserId = None,
        groupId = Some ''group_500_abc'', msg_text = ''all'', timestamp = 2000\<rparr>)]"
proof -
  have r1: "snd (admin_delete_user admin_caller ''u1'' None sample_store) =
      Json ''User deleted successfully''"
    by (simp add: admin_delete_user_def admin_caller_def or_empty_def isAdmin_admin
        not_isAdmin_alice kv_get_def sample_store_def)
  have r2: "snd (delete_account (Some \<lparr>au_id = ''u2'', au_email = Some ''bob@example.com''\<rparr>)
              (Some ''secret'') None None sample_store) = Json ''Account deleted successfully''"
    by (simp add: delete_account_def truthy_def)
  have e1: "admin_delete_user admin_caller ''u1'' None sample_store =
      (fst (admin_delete_user admin_caller ''u1'' None sample_store), Json ''User deleted successfully'')"
    using r1 by (simp add: prod_eq_iff)
  have e2: "delete_account (Some \<lparr>au_id = ''u2'', au_email = Some ''bob@example.com''\<rparr>)
              (Some ''secret'') None None sample_store =
      (fst (delete_account (Some \<lparr>au_id = ''u2'', au_email = Some ''bob@example.com''\<rparr>)
              (Some ''secret'') None None sample_store), Json ''Account deleted successfully'')"
    using r2 by (simp add: prod_eq_iff)
  note t = delete_user_messages [OF messages_wf_sample,
      where caller = admin_caller and uid = "''u1''" and deleteError = None
        and ?s1.0 = "fst (admin_delete_user admin_caller ''u1'' None sample_store)"
        and ?r1.0 = "''User deleted successfully''"]
  note t' = delete_user_messages [OF messages_wf_sample,
      where caller = "Some \<lparr>au_id = ''u2'', au_email = Some ''bob@example.com''\<rparr>"
        and password = "Some ''secret''" and signInError = None and deleteError = None
        and ?s2.0 = "fst (delete_account (Some \<lparr>au_id = ''u2'', au_email = Some ''bob@example.com''\<rparr>)
              (Some ''secret'') None None sample_store)"
        and ?r2.0 = "''Account deleted successfully''"]
  from t e1 have m1: "messages (fst (admin_delete_user admin_caller ''u1'' None sample_store)) =
      filter (\<lambda>(k, m). \<not> (fromUserId m = ''u1'' \<or> toUserId m = Some ''u1'')) (messages sample_store)"
    by blast
  from t' e2 have m2: "messages (fst (delete_account (Some \<lparr>au_id = ''u2'', au_email = Some ''bob@example.com''\<rparr>)
              (Some ''secret'') None None sample_store)) =
      filter (\<lambda>(k, m). \<not> (fromUserId m = au_id (the (Some \<lparr>au_id = ''u2'', au_email = Some ''bob@example.com''\<rparr>)) \<or>
                 toUserId m = Some (au_id (the (Some \<lparr>au_id = ''u2'', au_email = Some ''bob@example.com''\<rparr>)))))
        (messages sample_store)"
    by blast
  show ?thesis
    unfolding m1 m2 by (simp add: messages_wf_sample) (simp add: sample_store_def)
qed

subsection \<open>Deleting a group\<close>

text \<open>
  Claim C5. After an administrator has deleted an existing group, the group's record is
  gone, the group's id is in the group index of none of its members, every message with
  that group id is deleted (and no other message), and the message listing for the
  group's id, an id that starts with \<open>group_\<close> as every created group's does, is empty
  for every caller.
\<close>

theorem admin_delete_group_cascade:
  assumes "admin_delete_group caller gid s = (s', Json r)"
    and "kv_get gid (groups s) = Some G"
    and "messages_wf (messages s)"
  shows "(\<forall>member \<in> set (memberIds G). gid \<notin> set (groups_of member (user_groups s'))) \<and>
         messages s' = filter (\<lambda>(k, m). groupId m \<noteq> Some gid) (messages s) \<and>
         (\<forall>m \<in> set (kv_getByPrefix (messages s')). groupId m \<noteq> Some gid) \<and>
         (\<forall>viewer. authenticated viewer \<and> prefix ''group_'' gid \<longrightarrow>
            get_messages viewer gid s' = Json [])"
proof -
  from assms have s': "s' = s\<lparr>groups := kv_del gid (groups s),
      user_groups := remove_group_from_members gid (memberIds G) (user_groups s),
      messages := filter (\<lambda>(k, m). groupId m \<noteq> Some gid) (messages s)\<rparr>"
    by (auto simp: admin_delete_group_def delete_messages_where_wf split: option.splits if_splits)
  have idx: "gid \<notin> set (groups_of member (user_groups s'))" if "member \<in> set (memberIds G)" for member
    using that by (auto simp: s' groups_of_def kv_get_remove_group split: option.splits)
  have msgs: "groupId m \<noteq> Some gid" if "m \<in> set (kv_getByPrefix (messages s'))" for m
    using that by (auto simp: s' kv_getByPrefix_def)
  have "filter (\<lambda>m. groupId m = Some gid) (kv_getByPrefix (messages s')) = []"
    using msgs by (auto simp: filter_empty_conv)
  then have lst: "get_messages viewer gid s' = Json []"
    if "authenticated viewer" "prefix ''group_'' gid" for viewer
    using that by (auto simp: get_messages_def authenticated_def Let_def split: option.splits)
  have m_eq: "messages s' = filter (\<lambda>(k, m). groupId m \<noteq> Some gid) (messages s)"
    by (simp add: s')
  from idx m_eq msgs lst show ?thesis
    by blast
qed
theorem admin_delete_group_cascade_witness:
  "groups_of ''u1'' (user_groups sample_store) = [''group_500_abc''] \<and>
   groups_of ''u1'' (user_groups (fst (admin_delete_group admin_caller ''group_500_abc'' sample_store))) = [] \<and>
   groups_of ''u2'' (user_groups (fst (admin_delete_group admin_caller ''group_500_abc'' sample_store))) = [] \<and>
   get_messages (Some \<lparr>au_id = ''u1'', au_email = None\<rparr>) ''group_500_abc''
     (fst (admin_delete_group admin_caller ''group_500_abc'' sample_store)) = Json []"
proof -
  have r: "snd (admin_delete_group admin_caller ''group_500_abc'' sample_store) =
      Json ''Group deleted successfully''"
    by (simp add: admin_delete_group_def admin_caller_def or_empty_def isAdmin_admin
        kv_get_def sample_store_def)
  have e: "admin_delete_group admin_caller ''group_500_abc'' sample_store =
      (fst (admin_delete_group admin_caller ''group_500_abc'' sample_store),
       Json ''Group deleted successfully'')"
    using r by (simp add: prod_eq_iff)
  have g: "kv_get ''group_500_abc'' (groups sample_store) =
     Some \<lparr>group_id = ''group_500_abc'', group_name = ''Team'', memberIds = [''u1'', ''u2''],
           createdBy = ''u1'', createdAt = 500\<rparr>"
    by (simp add: kv_get_def sample_store_def)
  note t = admin_delete_group_cascade [OF e g messages_wf_sample]
  have before: "groups_of ''u1'' (user_groups sample_store) = [''group_500_abc'']"
    by (simp add: groups_of_def kv_get_def sample_store_def)
  have v: "authenticated (Some \<lparr>au_id = ''u1'', au_email = None\<rparr>) \<and> prefix ''group_'' ''group_500_abc''"
    by (simp add: authenticated_def)
  from t v have lst: "get_messages (Some \<lparr>au_id = ''u1'', au_email = None\<rparr>) ''group_500_abc''
     (fst (admin_delete_group admin_caller ''group_500_abc'' sample_store)) = Json []"
    by blast
  have after1: "groups_of ''u1'' (user_groups (fst (admin_delete_group admin_caller ''group_500_abc'' sample_store))) = []"
    by (simp add: admin_delete_group_def admin_caller_def or_empty_def isAdmin_admin
        kv_get_def sample_store_def remove_group_from_members_def groups_of_def)
  have after2: "groups_of ''u2'' (user_groups (fst (admin_delete_group admin_caller ''group_500_abc'' sample_store))) = []"
    by (simp add: admin_delete_group_def admin_caller_def or_empty_def isAdmin_admin
        kv_get_def sample_store_def remove_group_from_members_def groups_of_def)
  from before after1 after2 lst show ?thesis
    by blast
qed

subsection \<open>The end-to-end scenario\<close>

lemma filter_eq_singleton: "distinct xs \<Longrightarrow> x \<in> set xs \<Longrightarrow> filter (\<lambda>y. y = x) xs = [x]"
  by (induction xs) (auto simp: filter_empty_conv)

lemma filter_dm_entries:
  "filter (\<lambda>c. conv_id c = x \<and> conv_type c = ''dm'') (List.map_filter (dm_entry me s) xs) =
   List.map_filter (dm_entry me s) (filter (\<lambda>y. y = x) xs)"
  by (induction xs) (auto simp: List.map_filter_simps dm_entry_def Let_def split: option.splits)

lemma filter_group_entries:
  "filter (\<lambda>c. conv_id c = x \<and> conv_type c = ''dm'') (List.map_filter (group_entry s) xs) = []"
  by (induction xs) (auto simp: List.map_filter_simps group_entry_def Let_def split: option.splits)

lemma send_hi:
  assumes "messages s = []"
  shows "send_message (Some \<lparr>au_id = ''u1'', au_email = e\<rparr>) hi_body 1000 s =
         (s\<lparr>messages := [(''u1:u2:1000'', hi_message)],
            conversations :=
              (let c1 = (if ''u2'' \<notin> set (peers ''u1'' s)
                         then kv_set ''u1'' (peers ''u1'' s @ [''u2'']) (conversations s)
                         else conversations s)
               in if ''u1'' \<notin> set (peers ''u2'' s) then kv_set ''u2'' (peers ''u2'' s @ [''u1'']) c1
                  else c1)\<rparr>,
          Json hi_message)"
  using assms
  by (simp add: send_message_def hi_body_def hi_message_def truthy_def or_null_def or_empty_def
      string_of_int_1000 peers_messages_upd Let_def)

lemma send_message_dm_peers:
  assumes "send_message caller body now s = (s', Json msg)"
    and "groupId msg = None" and "toUserId msg = Some B" and "fromUserId msg = A"
  shows "peers A s' = (if B \<in> set (peers A s) then peers A s else peers A s @ [B])"
  unfolding peers_eq [of A s'] send_message_dm_conversations [OF assms]
  by (auto simp: Let_def kv_get_set peers_eq)

text \<open>
  Claim C4, as stated, fails in its last part: the conversation listing has an entry for
  a peer only if the peer's profile \<open>user:u2\<close> is stored, and send-message stores a
  message to a recipient that has none. In the empty store, where no message is stored,
  \<open>u1\<close> sends "hi" to \<open>u2\<close> at time 1000: the message is stored and listed, and the
  conversation listing of \<open>u1\<close> is empty.
\<close>

theorem scenario_without_profile_counterexample:
  "messages empty_store = [] \<and>
   send_message (Some \<lparr>au_id = ''u1'', au_email = None\<rparr>) hi_body 1000 empty_store =
     (\<lparr>users = [], messages = [(''u1:u2:1000'', hi_message)],
       conversations = [(''u1'', [''u2'']), (''u2'', [''u1''])], user_groups = [], groups = []\<rparr>,
      Json hi_message) \<and>
   get_messages (Some \<lparr>au_id = ''u1'', au_email = None\<rparr>) ''u2''
     \<lparr>users = [], messages = [(''u1:u2:1000'', hi_message)],
      conversations = [(''u1'', [''u2'']), (''u2'', [''u1''])], user_groups = [], groups = []\<rparr> =
     Json [hi_message] \<and>
   get_conversations (Some \<lparr>au_id = ''u1'', au_email = None\<rparr>)
     \<lparr>users = [], messages = [(''u1:u2:1000'', hi_message)],
      conversations = [(''u1'', [''u2'']), (''u2'', [''u1''])], user_groups = [], groups = []\<rparr> =
     Json []"
  by (simp add: send_message_def hi_body_def hi_message_def truthy_def or_null_def or_empty_def
      string_of_int_1000 peers_def groups_of_def kv_get_def kv_getByPrefix_def empty_store_def
      get_messages_def is_dm_between_def get_conversations_def dm_entry_def
      List.map_filter_simps Let_def)

text \<open>
  Claim C4, amended. Let no message be stored. After \<open>u1\<close> sends
  \<open>{toUserId: "u2", text: "hi"}\<close> at time 1000, the answer carries the message with id
  \<open>u1:u2:1000\<close>, sender \<open>u1\<close>, recipient \<open>u2\<close>, no group id and timestamp 1000, and
  that message is the one stored; the message listing for \<open>u2\<close> as \<open>u1\<close> is that one
  message. If moreover \<open>u2\<close> has a stored profile (and the index entry of \<open>u1\<close> holds no
  peer twice, as in every store the server builds), the conversation listing as \<open>u1\<close>
  has exactly one direct entry for \<open>u2\<close>, with latest message "hi", and it is the whole
  listing when \<open>u1\<close> had no peer and no group before.
\<close>

theorem scenario_u1_sends_hi:
  assumes "messages s = []"
    and "s' = fst (send_message (Some \<lparr>au_id = ''u1'', au_email = e\<rparr>) hi_body 1000 s)"
    and "entry = \<lparr>conv_id = ''u2'', conv_type = ''dm'', conv_name = user_name p,
                   conv_email = Some (user_email p), conv_memberCount = None,
                   latestMessage = ''hi'', conv_timestamp = 1000\<rparr>"
  shows "snd (send_message (Some \<lparr>au_id = ''u1'', au_email = e\<rparr>) hi_body 1000 s) =
           Json \<lparr>msg_id = ''u1:u2:1000'', fromUserId = ''u1'', toUserId = Some ''u2'',
                 groupId = None, msg_text = ''hi'', timestamp = 1000\<rparr> \<and>
         messages s' = [(''u1:u2:1000'', hi_message)] \<and>
         get_messages (Some \<lparr>au_id = ''u1'', au_email = e\<rparr>) ''u2'' s' = Json [hi_message] \<and>
         (kv_get ''u2'' (users s) = Some p \<and> distinct (peers ''u1'' s) \<longrightarrow>
            (\<exists>convs. get_conversations (Some \<lparr>au_id = ''u1'', au_email = e\<rparr>) s' = Json convs \<and>
                     filter (\<lambda>c. conv_id c = ''u2'' \<and> conv_type c = ''dm'') convs = [entry]) \<and>
            (peers ''u1'' s = [] \<and> groups_of ''u1'' (user_groups s) = [] \<longrightarrow>
               get_conversations (Some \<lparr>au_id = ''u1'', au_email = e\<rparr>) s' = Json [entry]))"
proof -
  note snd_eq = send_hi [OF assms(1), of e]
  have s'_eq: "send_message (Some \<lparr>au_id = ''u1'', au_email = e\<rparr>) hi_body 1000 s = (s', Json hi_message)"
    unfolding assms(2) snd_eq by simp
  have msgs: "messages s' = [(''u1:u2:1000'', hi_message)]"
    unfolding assms(2) snd_eq by simp
  have usrs: "users s' = users s" and ugs: "user_groups s' = user_groups s"
    unfolding assms(2) snd_eq by simp_all
  have resp: "snd (send_message (Some \<lparr>au_id = ''u1'', au_email = e\<rparr>) hi_body 1000 s) =
           Json \<lparr>msg_id = ''u1:u2:1000'', fromUserId = ''u1'', toUserId = Some ''u2'',
                 groupId = None, msg_text = ''hi'', timestamp = 1000\<rparr>"
    unfolding snd_eq by (simp add: hi_message_def)
  have between: "is_dm_between ''u1'' ''u2'' hi_message"
    by (simp add: is_dm_between_def hi_message_def)
  have lst: "get_messages (Some \<lparr>au_id = ''u1'', au_email = e\<rparr>) ''u2'' s' = Json [hi_message]"
    by (simp add: get_messages_def msgs kv_getByPrefix_def between Let_def)
  have prs: "peers ''u1'' s' =
      (if ''u2'' \<in> set (peers ''u1'' s) then peers ''u1'' s else peers ''u1'' s @ [''u2''])"
    by (rule send_message_dm_peers [OF s'_eq]) (simp_all add: hi_message_def)
  have flds: "msg_text hi_message = ''hi''" "timestamp hi_message = 1000"
    by (simp_all add: hi_message_def)
  have conv: "get_conversations (Some \<lparr>au_id = ''u1'', au_email = e\<rparr>) s' =
      Json (sort_key (\<lambda>c. - conv_timestamp c)
        (List.map_filter (dm_entry ''u1'' s') (peers ''u1'' s') @
         List.map_filter (group_entry s') (groups_of ''u1'' (user_groups s'))))"
    by (simp add: get_conversations_def Let_def)
  have listing:
    "(\<exists>convs. get_conversations (Some \<lparr>au_id = ''u1'', au_email = e\<rparr>) s' = Json convs \<and>
              filter (\<lambda>c. conv_id c = ''u2'' \<and> conv_type c = ''dm'') convs = [entry]) \<and>
     (peers ''u1'' s = [] \<and> groups_of ''u1'' (user_groups s) = [] \<longrightarrow>
        get_conversations (Some \<lparr>au_id = ''u1'', au_email = e\<rparr>) s' = Json [entry])"
    if prof: "kv_get ''u2'' (users s) = Some p" and dist: "distinct (peers ''u1'' s)"
  proof -
    have ent: "dm_entry ''u1'' s' ''u2'' = Some entry"
      by (simp add: dm_entry_def usrs prof msgs kv_getByPrefix_def between Let_def
          latest_text_def latest_timestamp_def flds assms(3))
    have one: "filter (\<lambda>y. y = ''u2'') (peers ''u1'' s') = [''u2'']"
      using dist by (intro filter_eq_singleton) (auto simp: prs)
    have flt: "filter (\<lambda>c. conv_id c = ''u2'' \<and> conv_type c = ''dm'')
         (sort_key (\<lambda>c. - conv_timestamp c)
          (List.map_filter (dm_entry ''u1'' s') (peers ''u1'' s') @
           List.map_filter (group_entry s') (groups_of ''u1'' (user_groups s')))) = [entry]"
      by (simp add: filter_sort filter_dm_entries filter_group_entries one ent List.map_filter_simps)
    have fresh: "get_conversations (Some \<lparr>au_id = ''u1'', au_email = e\<rparr>) s' = Json [entry]"
      if "peers ''u1'' s = []" "groups_of ''u1'' (user_groups s) = []"
      unfolding conv by (simp add: prs that ugs ent List.map_filter_simps)
    from conv flt fresh show ?thesis
      by simp
  qed
  from resp msgs lst listing show ?thesis
    by blast
qed

theorem scenario_u1_sends_hi_witness:
  "get_messages (Some \<lparr>au_id = ''u1'', au_email = None\<rparr>) ''u2''
     (fst (send_message (Some \<lparr>au_id = ''u1'', au_email = None\<rparr>) hi_body 1000
            (empty_store\<lparr>users := users sample_store\<rparr>))) = Json [hi_message] \<and>
   get_conversations (Some \<lparr>au_id = ''u1'', au_email = None\<rparr>)
     (fst (send_message (Some \<lparr>au_id = ''u1'', au_email = None\<rparr>) hi_body 1000
            (empty_store\<lparr>users := users sample_store\<rparr>))) =
   Json [\<lparr>conv_id = ''u2'', conv_type = ''dm'', conv_name = ''Bob'',
          conv_email = Some ''bob@example.com'', conv_memberCount = None,
          latestMessage = ''hi'', conv_timestamp = 1000\<rparr>]"
proof -
  have m: "messages (empty_store\<lparr>users := users sample_store\<rparr>) = []"
    by (simp add: empty_store_def)
  have p: "kv_get ''u2'' (users (empty_store\<lparr>users := users sample_store\<rparr>)) =
      Some \<lparr>user_id = ''u2'', user_email = ''bob@example.com'', user_name = ''Bob''\<rparr>"
    by (simp add: kv_get_def sample_store_def)
  have pe: "peers ''u1'' (empty_store\<lparr>users := users sample_store\<rparr>) = []"
    by (simp add: peers_def kv_get_def empty_store_def)
  have d: "distinct (peers ''u1'' (empty_store\<lparr>users := users sample_store\<rparr>))"
    by (simp add: pe)
  have g: "groups_of ''u1'' (user_groups (empty_store\<lparr>users := users sample_store\<rparr>)) = []"
    by (simp add: groups_of_def kv_get_def empty_store_def)
  from scenario_u1_sends_hi [OF m refl refl, of None
      "\<lparr>user_id = ''u2'', user_email = ''bob@example.com'', user_name = ''Bob''\<rparr>"] p d pe g
  show ?thesis
    by simp
qed

subsection \<open>The assumptions on stores hold in every store the server builds\<close>

text \<open>
  The well-formedness of the message key space holds in the empty store and is kept by
  every handler that writes to it; every group that create-group stores has an id that
  starts with \<open>group_\<close>.
\<close>

lemma messages_wf_empty: "messages_wf (messages empty_store)"
  by (simp add: messages_wf_def empty_store_def)

lemma set_kv_set: "set (kv_set k v kvs) \<subseteq> insert (k, v) (set kvs)"
  by (induction k v kvs rule: kv_set.induct) (auto split: if_splits)

lemma keys_kv_set:
  "map fst (kv_set k v kvs) = (if k \<in> fst ` set kvs then map fst kvs else map fst kvs @ [k])"
  by (induction k v kvs rule: kv_set.induct) (auto split: if_splits)

lemma messages_wf_kv_set: "messages_wf ms \<Longrightarrow> msg_id m = k \<Longrightarrow> messages_wf (kv_set k m ms)"
  using set_kv_set [of k m ms] by (auto simp: messages_wf_def keys_kv_set)

lemma messages_wf_filter: "messages_wf ms \<Longrightarrow> messages_wf (filter P ms)"
  by (auto simp: messages_wf_def distinct_map_filter)

lemma send_message_wf:
  "messages_wf (messages s) \<Longrightarrow> messages_wf (messages (fst (send_message caller body now s)))"
  by (auto simp: send_message_def Let_def messages_wf_kv_set split: option.splits)

lemma create_group_wf:
  "messages_wf (messages s) \<Longrightarrow>
   messages_wf (messages (fst (create_group caller body now1 rnd now2 s)))"
  by (auto simp: create_group_def Let_def split: option.splits)

lemma admin_delete_user_wf:
  "messages_wf (messages s) \<Longrightarrow>
   messages_wf (messages (fst (admin_delete_user caller uid deleteError s)))"
  by (auto simp: admin_delete_user_def cascade_delete_user_def delete_messages_where_wf
      messages_wf_filter split: option.splits)

lemma delete_account_wf:
  "messages_wf (messages s) \<Longrightarrow>
   messages_wf (messages (fst (delete_account caller password signInError deleteError s)))"
  by (auto simp: delete_account_def cascade_delete_user_def delete_messages_where_wf
      messages_wf_filter split: option.splits)

lemma admin_delete_group_wf:
  "messages_wf (messages s) \<Longrightarrow> messages_wf (messages (fst (admin_delete_group caller gid s)))"
  by (auto simp: admin_delete_group_def delete_messages_where_wf messages_wf_filter
      split: option.splits)

lemma create_group_id_prefix:
  "create_group caller body now1 rnd now2 s = (s', Json g) \<Longrightarrow>
   prefix ''group_'' (group_id g) \<and> kv_get (group_id g) (groups s') = Some g"
  by (auto simp: create_group_def Let_def kv_get_set split: option.splits if_splits)

text \<open>
  No index entry of the conversation index ever holds a peer twice: this holds in the
  empty store and is kept by send-message, the only handler that writes an entry, and by
  the two user deletions, which remove one.
\<close>

lemma conversations_wf_empty: "conversations_wf (conversations empty_store)"
  by (simp add: conversations_wf_def empty_store_def)

lemma conversations_wf_peers: "conversations_wf (conversations s) \<Longrightarrow> distinct (peers k s)"
  by (auto simp: conversations_wf_def peers_def kv_get_def split: option.splits dest: map_of_SomeD)

lemma conversations_wf_kv_set:
  "conversations_wf cs \<Longrightarrow> distinct l \<Longrightarrow> conversations_wf (kv_set k l cs)"
  using set_kv_set [of k l cs] by (auto simp: conversations_wf_def)

lemma conversations_wf_kv_del: "conversations_wf cs \<Longrightarrow> conversations_wf (kv_del k cs)"
  by (auto simp: conversations_wf_def kv_del_def)

lemma send_message_conversations_wf:
  assumes "conversations_wf (conversations s)"
  shows "conversations_wf (conversations (fst (send_message caller body now s)))"
proof -
  have d: "conversations_wf (kv_set k (peers k s @ [x]) cs)"
    if "x \<notin> set (peers k s)" "conversations_wf cs" for k x cs
    using that conversations_wf_peers [OF assms, of k] by (intro conversations_wf_kv_set) simp_all
  show ?thesis
    using assms
    by (auto simp: send_message_def Let_def peers_messages_upd split: option.splits intro!: d)
qed

lemma delete_user_conversations_wf:
  assumes "conversations_wf (conversations s)"
  shows "conversations_wf (conversations (fst (admin_delete_user caller uid deleteError s)))"
    and "conversations_wf
           (conversations (fst (delete_account caller password signInError deleteError s)))"
  using assms
  by (auto simp: admin_delete_user_def delete_account_def cascade_delete_user_def
      conversations_wf_kv_del split: option.splits)

end
